theory Spec2Isabelle
  imports Main
begin

section \<open>Python strings\<close>

text \<open>
  Python compares two \<open>str\<close> values lexicographically, code point by code point; a proper
  prefix is smaller than the longer string. Both version tests of \<open>start.py\<close>
  (\<open>tables.__version__ < '3.0'\<close> and \<open>tables.__version__ >= "3.1.0"\<close>) are comparisons of
  this kind.
\<close>

fun str_lt :: "string \<Rightarrow> string \<Rightarrow> bool" where
  "str_lt [] [] = False"
| "str_lt [] (y # ys) = True"
| "str_lt (x # xs) [] = False"
| "str_lt (x # xs) (y # ys) =
     (if (of_char x :: nat) < of_char y then True
      else if (of_char x :: nat) = of_char y then str_lt xs ys
      else False)"

definition str_ge :: "string \<Rightarrow> string \<Rightarrow> bool" where
  "str_ge a b = (\<not> str_lt a b)"

text \<open>\<open>text.startswith(prefix)\<close>.\<close>

fun startswith :: "string \<Rightarrow> string \<Rightarrow> bool" where
  "startswith s [] = True"
| "startswith [] (p # ps) = False"
| "startswith (c # cs) (p # ps) = (c = p \<and> startswith cs ps)"

text \<open>\<open>str(n)\<close> for a non-negative integer: its decimal digits.\<close>

definition digit_char :: "nat \<Rightarrow> char" where
  "digit_char d = char_of (48 + d)"

function str_of_nat :: "nat \<Rightarrow> string" where
  "str_of_nat n =
     (if n < 10 then [digit_char n] else str_of_nat (n div 10) @ [digit_char (n mod 10)])"
  by pat_completeness auto
termination
  by (relation "measure id") auto

declare str_of_nat.simps [simp del]

section \<open>Exceptions\<close>

text \<open>
  An instance of a subclass of Python's \<open>Exception\<close>: its class name and its \<open>str()\<close>.
\<close>

datatype exc = Exc (exc_class: string) (exc_str: string)

text \<open>
  What makes a function of the launcher leave without a value: \<open>sys.exit(message)\<close>, the
  exit of the argument parser, or an exception that nothing catches.
\<close>

datatype error =
    SystemExit string
  | ParserExit
  | Uncaught exc

section \<open>logger.py: the console widget\<close>

text \<open>
  \<open>QColor(r, g, b)\<close>; \<open>QColor('red')\<close> is the SVG colour \<open>#ff0000\<close>.
\<close>

datatype qcolor = QColor nat nat nat

definition QColor_red :: qcolor where
  "QColor_red = QColor 255 0 0"

text \<open>
  The state of the \<open>Logger\<close> widget (a \<open>QTextEdit\<close>) that \<open>write\<close> reads and changes:
  the current text colour, the paragraphs of the document in order, each with the colour
  it was appended in, and the position of the text cursor.
\<close>

record logger_widget =
  text_color :: qcolor
  document :: "(string \<times> qcolor) list"
  cursor :: nat

text \<open>
  What \<open>QTextEdit.moveCursor\<close> does is Qt's business: where the end of the cursor's line is
  depends on the layout, and moving the cursor makes the character format found there the
  current one. Both are parameters of the model.
\<close>

record qt =
  end_of_line :: "logger_widget \<Rightarrow> nat"
  format_at :: "logger_widget \<Rightarrow> nat \<Rightarrow> qcolor"

definition textColor :: "logger_widget \<Rightarrow> qcolor" where
  "textColor w = text_color w"

definition setTextColor :: "qcolor \<Rightarrow> logger_widget \<Rightarrow> logger_widget" where
  "setTextColor c w = w\<lparr>text_color := c\<rparr>"

text \<open>
  \<open>QTextEdit.append(text)\<close> adds a paragraph at the end of the document, in the current
  character format, and leaves the cursor where it is.
\<close>

definition append_text :: "string \<Rightarrow> logger_widget \<Rightarrow> logger_widget" where
  "append_text s w = w\<lparr>document := document w @ [(s, text_color w)]\<rparr>"

definition moveCursor_EndOfLine :: "qt \<Rightarrow> logger_widget \<Rightarrow> logger_widget" where
  "moveCursor_EndOfLine q w =
     (let pos = end_of_line q w in w\<lparr>cursor := pos, text_color := format_at q w pos\<rparr>)"

definition error_prefix :: string where
  "error_prefix = CHR 0x0A # ''Error: ''"

definition warning_prefix :: string where
  "warning_prefix = CHR 0x0A # ''Warning: ''"

definition Logger_write :: "qt \<Rightarrow> logger_widget \<Rightarrow> string \<Rightarrow> logger_widget" where
  "Logger_write q w s =
     (let current_color = textColor w in
      if s \<in> set [[CHR 0x0A], [CHR 0x0D, CHR 0x0A]] then w
      else
        let w1 = (if startswith s error_prefix then setTextColor QColor_red w
                  else if startswith s warning_prefix then setTextColor (QColor 243 137 8) w
                  else w);
            w2 = append_text s w1;
            w3 = moveCursor_EndOfLine q w2
        in setTextColor current_color w3)"

section \<open>start.py: the version check\<close>

text \<open>
  \<open>_check_versions\<close>, with \<open>tables.__version__\<close> as its argument. \<open>sys.exit(message)\<close>
  raises \<open>SystemExit\<close> with the message.
\<close>

definition check_versions :: "string \<Rightarrow> error + unit" where
  "check_versions tables_version =
     (if str_lt tables_version ''3.0''
      then Inl (SystemExit (''FATAL: PyTables version 3.0 or above is required, ''
                            @ ''installed version is '' @ tables_version))
      else Inr ())"

text \<open>
  What the docstring (\<open>Check that tables are at least version 3.0\<close>) and the message
  (\<open>version 3.0 or above is required\<close>) say is a comparison of version numbers: the
  components between the dots are read as numbers and compared from the left, a missing
  component counting as zero. These definitions follow those words, not the code.
\<close>

fun split_dots :: "string \<Rightarrow> string \<Rightarrow> string list" where
  "split_dots cur [] = [rev cur]"
| "split_dots cur (c # cs) =
     (if c = CHR ''.'' then rev cur # split_dots [] cs else split_dots (c # cur) cs)"

fun nat_of_digits :: "nat \<Rightarrow> string \<Rightarrow> nat" where
  "nat_of_digits n [] = n"
| "nat_of_digits n (c # cs) = nat_of_digits (10 * n + (of_char c - 48)) cs"

definition version_components :: "string \<Rightarrow> nat list" where
  "version_components v = map (nat_of_digits 0) (split_dots [] v)"

fun components_lt :: "nat list \<Rightarrow> nat list \<Rightarrow> bool" where
  "components_lt [] [] = False"
| "components_lt [] (y # ys) = (0 < y \<or> (y = 0 \<and> components_lt [] ys))"
| "components_lt (x # xs) [] = False"
| "components_lt (x # xs) (y # ys) = (x < y \<or> (x = y \<and> components_lt xs ys))"

definition spec_version_below :: "string \<Rightarrow> string \<Rightarrow> bool" where
  "spec_version_below v minimum =
     components_lt (version_components v) (version_components minimum)"

section \<open>start.py: the command line\<close>

text \<open>
  The namespace that \<open>parser.parse_args()\<close> returns: one attribute for each argument that
  \<open>_parse_command_line\<close> declares.
\<close>

record args =
  mode :: string
  dblist :: string
  h5file :: "string list"
  log_file :: "string option"
  verbose :: nat

text \<open>
  \<open>argparse\<close> is Python's library, not this program, and reads \<open>sys.argv\<close>. The model
  takes what a command line supplies for each argument that the source declares: whether
  \<open>--version\<close> is there, the value of \<open>-m/--mode\<close>, of \<open>-d/--dblist\<close> and of
  \<open>-l/--log-file\<close> when given, how many \<open>-v/--verbose\<close> there are, and the positional
  \<open>h5file\<close> paths. Command lines that \<open>argparse\<close> rejects for their syntax (an unknown
  option, an option without its value) and \<open>-h\<close> are outside this type.
\<close>

record command_line =
  given_version :: bool
  given_mode :: "string option"
  given_dblist :: "string option"
  given_log_file :: "string option"
  given_verbose :: nat
  given_h5file :: "string list"

text \<open>
  \<open>parse_args\<close> for the parser that the source builds. The \<open>version\<close> action prints the
  version and exits; a \<open>--mode\<close> outside \<open>choices=['r', 'a']\<close> is an error, and
  \<open>argparse\<close> exits. Otherwise every attribute is the value given or its default:
  \<open>set_defaults(mode='a', dblist='', h5file=[])\<close>, \<open>default=0\<close> for the count of
  \<open>--verbose\<close>, and \<open>None\<close> for \<open>--log-file\<close>.
\<close>

definition mode_choices :: "string list" where
  "mode_choices = [''r'', ''a'']"

definition parse_args :: "command_line \<Rightarrow> error + args" where
  "parse_args cl =
     (if given_version cl then Inl ParserExit
      else if (case given_mode cl of None \<Rightarrow> False | Some m \<Rightarrow> m \<notin> set mode_choices)
      then Inl ParserExit
      else Inr \<lparr>mode = (case given_mode cl of None \<Rightarrow> ''a'' | Some m \<Rightarrow> m),
                dblist = (case given_dblist cl of None \<Rightarrow> [] | Some d \<Rightarrow> d),
                h5file = given_h5file cl,
                log_file = given_log_file cl,
                verbose = 0 + given_verbose cl\<rparr>)"

text \<open>
  \<open>_parse_command_line\<close>: \<open>if args.dblist:\<close> is true of a string that is not empty.
\<close>

definition parse_command_line :: "command_line \<Rightarrow> error + args" where
  "parse_command_line cl =
     (case parse_args cl of
        Inl e \<Rightarrow> Inl e
      | Inr a \<Rightarrow> Inr (if dblist a \<noteq> [] then a\<lparr>mode := [], h5file := []\<rparr> else a))"

section \<open>start.py: logging\<close>

text \<open>The numeric levels of Python's \<open>logging\<close> module.\<close>

definition NOTSET :: nat where "NOTSET = 0"
definition DEBUG :: nat where "DEBUG = 10"
definition INFO :: nat where "INFO = 20"
definition WARNING :: nat where "WARNING = 30"
definition ERROR :: nat where "ERROR = 40"

text \<open>\<open>_VERBOSITY_LOGLEVEL_DICT\<close> and \<open>_FILE_LOG_FORMAT\<close>.\<close>

definition VERBOSITY_LOGLEVEL_DICT :: "nat \<rightharpoonup> nat" where
  "VERBOSITY_LOGLEVEL_DICT = map_of [(0, ERROR), (1, WARNING), (2, INFO), (3, DEBUG)]"

definition FILE_LOG_FORMAT :: string where
  "FILE_LOG_FORMAT = ''%(asctime)s - %(name)s - %(levelname)s - %(message)s''"

text \<open>
  A handler writes to \<open>sys.stderr\<close> (\<open>logging.StreamHandler()\<close>) or to a file
  (\<open>logging.FileHandler(filename)\<close>); it has a level, \<open>NOTSET\<close> when it is created, and
  a formatter once \<open>setFormatter\<close> has been called.
\<close>

datatype stream = Stderr | File string

record handler =
  h_stream :: stream
  h_level :: nat
  h_formatter :: "string option"

text \<open>
  The root logger: its level, its handlers in the order they were added, every record
  that a logging call was made with (level and message), and the records that reached a
  handler, each with the stream of that handler.
\<close>

record logger =
  lg_level :: nat
  lg_handlers :: "handler list"
  lg_calls :: "(nat \<times> string) list"
  lg_emitted :: "(stream \<times> nat \<times> string) list"

definition StreamHandler :: handler where
  "StreamHandler = \<lparr>h_stream = Stderr, h_level = NOTSET, h_formatter = None\<rparr>"

definition setFormatter :: "handler \<Rightarrow> string \<Rightarrow> handler" where
  "setFormatter h fmt = h\<lparr>h_formatter := Some fmt\<rparr>"

text \<open>
  \<open>Logger.addHandler\<close> appends a handler that is not in the list yet; the handlers that
  \<open>_setup_logger\<close> adds are objects it has just created.
\<close>

definition addHandler :: "logger \<Rightarrow> handler \<Rightarrow> logger" where
  "addHandler lg h = lg\<lparr>lg_handlers := lg_handlers lg @ [h]\<rparr>"

definition setLevel :: "logger \<Rightarrow> nat \<Rightarrow> logger" where
  "setLevel lg l = lg\<lparr>lg_level := l\<rparr>"

text \<open>
  \<open>Logger.error(msg)\<close>: the record is handled when \<open>ERROR\<close> is not below the level of
  the logger, and then goes to every handler whose own level admits it.
\<close>

definition logger_error :: "logger \<Rightarrow> string \<Rightarrow> logger" where
  "logger_error lg msg =
     (let lg1 = lg\<lparr>lg_calls := lg_calls lg @ [(ERROR, msg)]\<rparr> in
      if lg_level lg \<le> ERROR
      then lg1\<lparr>lg_emitted := lg_emitted lg @
                   map (\<lambda>h. (h_stream h, ERROR, msg))
                       (filter (\<lambda>h. h_level h \<le> ERROR) (lg_handlers lg))\<rparr>
      else lg1)"

text \<open>
  What \<open>_setup_logger\<close> asks of the operating system: \<open>os.path.expanduser\<close>,
  \<open>os.path.expandvars\<close>, and whether \<open>logging.FileHandler(filename)\<close>, which opens the
  file, raises (an \<open>OSError\<close> such as \<open>FileNotFoundError\<close> or \<open>PermissionError\<close>).
\<close>

record os_env =
  expanduser :: "string \<Rightarrow> string"
  expandvars :: "string \<Rightarrow> string"
  open_raises :: "string \<Rightarrow> exc option"

definition FileHandler :: "os_env \<Rightarrow> string \<Rightarrow> exc + handler" where
  "FileHandler env filename =
     (case open_raises env filename of
        Some e \<Rightarrow> Inl e
      | None \<Rightarrow> Inr \<lparr>h_stream = File filename, h_level = NOTSET, h_formatter = None\<rparr>)"

text \<open>The body of the \<open>try\<close> of \<open>_setup_logger\<close>.\<close>

definition add_file_handler :: "os_env \<Rightarrow> string \<Rightarrow> string \<Rightarrow> logger \<Rightarrow> exc + logger" where
  "add_file_handler env file_formatter path lg =
     (let log_filename = expandvars env (expanduser env path) in
      case FileHandler env log_filename of
        Inl e \<Rightarrow> Inl e
      | Inr file_handler \<Rightarrow> Inr (addHandler lg (setFormatter file_handler file_formatter)))"

text \<open>
  The statement \<open>if args.log_file is not None:\<close> of \<open>_setup_logger\<close>, with its
  \<open>try\<close> and \<open>except Exception as e\<close>. \<open>logger.error(e)\<close> logs \<open>str(e)\<close>.
\<close>

definition open_log_file :: "os_env \<Rightarrow> string \<Rightarrow> args \<Rightarrow> logger \<Rightarrow> logger" where
  "open_log_file env file_formatter a lg =
     (case log_file a of
        None \<Rightarrow> lg
      | Some path \<Rightarrow>
          (case add_file_handler env file_formatter path lg of
             Inr lg' \<Rightarrow> lg'
           | Inl e \<Rightarrow>
               logger_error (logger_error lg ''Failed to open log file'') (exc_str e)))"

text \<open>The statement \<open>if args.verbose in _VERBOSITY_LOGLEVEL_DICT:\<close> with its \<open>else\<close>.\<close>

definition set_verbosity :: "args \<Rightarrow> logger \<Rightarrow> logger" where
  "set_verbosity a lg =
     (case VERBOSITY_LOGLEVEL_DICT (verbose a) of
        Some l \<Rightarrow> setLevel lg l
      | None \<Rightarrow>
          logger_error (setLevel lg ERROR)
            (''Invalid verbosity level: '' @ str_of_nat (verbose a)
             @ '', error level set to ERROR''))"

text \<open>
  \<open>_setup_logger(args)\<close>, with the root logger that \<open>logging.getLogger()\<close> returns as an
  argument.
\<close>

definition setup_logger :: "os_env \<Rightarrow> args \<Rightarrow> logger \<Rightarrow> logger \<times> handler" where
  "setup_logger env a root =
     (let file_formatter = FILE_LOG_FORMAT;
          temporary_stderr_handler = setFormatter StreamHandler file_formatter;
          lg1 = addHandler root temporary_stderr_handler;
          lg2 = open_log_file env file_formatter a lg1;
          lg3 = set_verbosity a lg2
      in (lg3, temporary_stderr_handler))"

section \<open>start.py: the hook for uncaught exceptions\<close>

text \<open>
  The hook makes two calls, and the model records them in order: \<open>error(msg)\<close> on the
  logger named \<open>uncaught_logger\<close>, and \<open>sys.__excepthook__(type_, value, tb)\<close>. The
  exception type, the exception and the traceback are whatever the interpreter passes;
  \<open>traceback.format_tb\<close> and \<open>str\<close> are parameters.
\<close>

datatype ('t, 'v, 'tb) call =
    Logger_error string string
  | Sys_excepthook 't 'v 'tb

definition uncaught_exception_logger :: string where
  "uncaught_exception_logger = ''uncaught_logger''"

definition uncaught_exception_hook ::
  "('tb \<Rightarrow> string list) \<Rightarrow> ('v \<Rightarrow> string) \<Rightarrow> ('t, 'v, 'tb) call list
     \<Rightarrow> 't \<Rightarrow> 'v \<Rightarrow> 'tb \<Rightarrow> ('t, 'v, 'tb) call list" where
  "uncaught_exception_hook format_tb str calls ty value tb =
     (let calls1 = calls @ [Logger_error uncaught_exception_logger
                              (concat (format_tb tb) @ str value)]
      in calls1 @ [Sys_excepthook ty value tb])"

section \<open>start.py: closing the files left open\<close>

text \<open>
  A PyTables file handle, and the registry \<open>tables.file._open_files\<close> in its two layouts:
  an object with a \<open>handlers\<close> container (the branch for versions from 3.1.0 on), or a
  dictionary from keys to handles (the branch for older versions), here the list of its
  items in the order of \<open>keys()\<close>.
\<close>

record fileh =
  filename :: string
  handle_id :: nat

datatype registry =
    Handlers_registry "fileh list"
  | Dict_registry "(string \<times> fileh) list"

text \<open>The argument \<open>verbose\<close> is any Python value; \<open>if verbose\<close> tests its truth.\<close>

datatype pyvalue = PyNone | PyBool bool | PyInt int | PyStr string

fun truthy :: "pyvalue \<Rightarrow> bool" where
  "truthy PyNone = False"
| "truthy (PyBool b) = b"
| "truthy (PyInt i) = (i \<noteq> 0)"
| "truthy (PyStr s) = (s \<noteq> [])"

text \<open>
  The effects: what has been written to \<open>sys.stderr\<close>, and the handles whose \<open>close()\<close>
  has been called, both in order.
\<close>

record world =
  stderr :: "string list"
  closed :: "fileh list"

definition stderr_write :: "world \<Rightarrow> string \<Rightarrow> world" where
  "stderr_write w s = w\<lparr>stderr := stderr w @ [s]\<rparr>"

definition len_registry :: "registry \<Rightarrow> nat" where
  "len_registry r = (case r of Handlers_registry hs \<Rightarrow> length hs | Dict_registry d \<Rightarrow> length d)"

text \<open>
  \<open>list(open_files.handlers)\<close>: a dictionary has no attribute \<open>handlers\<close>.
\<close>

definition list_handlers :: "registry \<Rightarrow> error + fileh list" where
  "list_handlers r =
     (case r of
        Handlers_registry hs \<Rightarrow> Inr hs
      | Dict_registry d \<Rightarrow> Inl (Uncaught (Exc ''AttributeError'' ''handlers'')))"

text \<open>
  The loop over \<open>open_files.keys()\<close>, which appends \<open>open_files[key]\<close> for each key; the
  registry object of the newer layout has no \<open>keys\<close>.
\<close>

fun handlers_of_keys :: "(string \<times> fileh) list \<Rightarrow> string list \<Rightarrow> fileh list \<Rightarrow> error + fileh list" where
  "handlers_of_keys d [] handlers = Inr handlers"
| "handlers_of_keys d (key # keys) handlers =
     (case map_of d key of
        None \<Rightarrow> Inl (Uncaught (Exc ''KeyError'' key))
      | Some h \<Rightarrow> handlers_of_keys d keys (handlers @ [h]))"

definition handlers_from_keys :: "registry \<Rightarrow> error + fileh list" where
  "handlers_from_keys r =
     (case r of
        Handlers_registry hs \<Rightarrow> Inl (Uncaught (Exc ''AttributeError'' ''keys''))
      | Dict_registry d \<Rightarrow> handlers_of_keys d (map fst d) [])"

text \<open>
  The loop \<open>for fileh in handlers\<close>. \<open>fileh.close()\<close> is PyTables' method: the call is
  recorded, and where it raises (\<open>close_raises\<close>) the exception leaves the loop.
\<close>

fun close_all :: "(fileh \<Rightarrow> exc option) \<Rightarrow> pyvalue \<Rightarrow> fileh list \<Rightarrow> world \<Rightarrow> error + world" where
  "close_all close_raises vb [] w = Inr w"
| "close_all close_raises vb (h # hs) w =
     (let w1 = (if truthy vb then stderr_write w (filename h @ ''...'') else w);
          w2 = w1\<lparr>closed := closed w1 @ [h]\<rparr>
      in case close_raises h of
           Some e \<Rightarrow> Inl (Uncaught e)
         | None \<Rightarrow>
             close_all close_raises vb hs
               (if truthy vb then stderr_write w2 ''done'' else w2))"

text \<open>
  \<open>_close_open_files(verbose)\<close> (\<open>vb\<close> is its argument), with \<open>tables.__version__\<close> and
  \<open>tables.file._open_files\<close> as arguments.
\<close>

definition close_open_files ::
  "(fileh \<Rightarrow> exc option) \<Rightarrow> string \<Rightarrow> registry \<Rightarrow> pyvalue \<Rightarrow> world \<Rightarrow> error + world" where
  "close_open_files close_raises tables_version open_files vb w =
     (let are_open_files = (len_registry open_files > 0);
          w1 = (if truthy vb \<and> are_open_files
                then stderr_write w ''Closing remaining open files:'' else w)
      in case (if str_ge tables_version ''3.1.0'' then list_handlers open_files
               else handlers_from_keys open_files) of
           Inl e \<Rightarrow> Inl e
         | Inr handlers \<Rightarrow>
             (case close_all close_raises vb handlers w1 of
                Inl e \<Rightarrow> Inl e
              | Inr w2 \<Rightarrow>
                  Inr (if truthy vb \<and> are_open_files
                       then stderr_write w2 [CHR 0x0A] else w2)))"

text \<open>The handles in a registry, and what makes a list of items a dictionary.\<close>

definition registry_handles :: "registry \<Rightarrow> fileh list" where
  "registry_handles r = (case r of Handlers_registry hs \<Rightarrow> hs | Dict_registry d \<Rightarrow> map snd d)"

definition registry_wf :: "registry \<Rightarrow> bool" where
  "registry_wf r = (case r of Handlers_registry hs \<Rightarrow> True | Dict_registry d \<Rightarrow> distinct (map fst d))"

section \<open>The console widget: colours of the appended text\<close>

lemma startswith_error_not_newline:
  "startswith s error_prefix \<Longrightarrow> s \<noteq> [CHR 0x0A] \<and> s \<noteq> [CHR 0x0D, CHR 0x0A]"
  by (auto simp: error_prefix_def)

lemma startswith_warning_not_newline:
  "startswith s warning_prefix \<Longrightarrow> s \<noteq> [CHR 0x0A] \<and> s \<noteq> [CHR 0x0D, CHR 0x0A]"
  by (auto simp: warning_prefix_def)

lemma startswith_error_not_warning:
  "startswith s error_prefix \<Longrightarrow> \<not> startswith s warning_prefix"
  by (cases s; cases "tl s") (auto simp: error_prefix_def warning_prefix_def)

lemma document_Logger_write:
  "s \<noteq> [CHR 0x0A] \<Longrightarrow> s \<noteq> [CHR 0x0D, CHR 0x0A] \<Longrightarrow>
   document (Logger_write q w s) =
     document w @ [(s, if startswith s error_prefix then QColor_red
                       else if startswith s warning_prefix then QColor 243 137 8
                       else text_color w)]"
  by (simp add: Logger_write_def Let_def textColor_def setTextColor_def append_text_def
      moveCursor_EndOfLine_def)

text \<open>
  Claim C6. A text that starts with the error prefix (a newline, then \<open>Error: \<close>) is
  appended to the document in red; a text that starts with the warning prefix (a newline,
  then \<open>Warning: \<close>) is appended in the colour \<open>QColor(243, 137, 8)\<close>; any other text
  that \<open>write\<close> appends is appended in the text colour that was current on entry.
\<close>

theorem Logger_write_colors:
  "(startswith s error_prefix \<longrightarrow>
      document (Logger_write q w s) = document w @ [(s, QColor_red)])
   \<and> (startswith s warning_prefix \<longrightarrow>
      document (Logger_write q w s) = document w @ [(s, QColor 243 137 8)])
   \<and> (\<not> startswith s error_prefix \<and> \<not> startswith s warning_prefix
        \<and> s \<noteq> [CHR 0x0A] \<and> s \<noteq> [CHR 0x0D, CHR 0x0A] \<longrightarrow>
      document (Logger_write q w s) = document w @ [(s, text_color w)])"
  using startswith_error_not_newline [of s] startswith_warning_not_newline [of s]
    startswith_error_not_warning [of s]
  by (simp add: document_Logger_write)

text \<open>
  The three cases on a console that shows one black paragraph, with a Qt that would make
  another colour current when the cursor moves.
\<close>

theorem Logger_write_colors_witness:
  "startswith (CHR 0x0A # ''Error: no such node'') error_prefix
   \<and> document (Logger_write \<lparr>end_of_line = (\<lambda>w. 7), format_at = (\<lambda>w p. QColor 9 9 9)\<rparr>
        \<lparr>text_color = QColor 0 0 0, document = [(''Hola mundo!'', QColor 0 0 0)], cursor = 3\<rparr>
        (CHR 0x0A # ''Error: no such node''))
       = [(''Hola mundo!'', QColor 0 0 0), (CHR 0x0A # ''Error: no such node'', QColor_red)]
   \<and> startswith (CHR 0x0A # ''Warning: read-only file'') warning_prefix
   \<and> document (Logger_write \<lparr>end_of_line = (\<lambda>w. 7), format_at = (\<lambda>w p. QColor 9 9 9)\<rparr>
        \<lparr>text_color = QColor 0 0 0, document = [(''Hola mundo!'', QColor 0 0 0)], cursor = 3\<rparr>
        (CHR 0x0A # ''Warning: read-only file''))
       = [(''Hola mundo!'', QColor 0 0 0),
          (CHR 0x0A # ''Warning: read-only file'', QColor 243 137 8)]
   \<and> \<not> startswith ''Adeu!'' error_prefix \<and> \<not> startswith ''Adeu!'' warning_prefix
   \<and> document (Logger_write \<lparr>end_of_line = (\<lambda>w. 7), format_at = (\<lambda>w p. QColor 9 9 9)\<rparr>
        \<lparr>text_color = QColor 0 0 0, document = [(''Hola mundo!'', QColor 0 0 0)], cursor = 3\<rparr>
        ''Adeu!'')
       = [(''Hola mundo!'', QColor 0 0 0), (''Adeu!'', QColor 0 0 0)]"
  using Logger_write_colors [of "CHR 0x0A # ''Error: no such node''"
      "\<lparr>end_of_line = (\<lambda>w. 7), format_at = (\<lambda>w p. QColor 9 9 9)\<rparr>"
      "\<lparr>text_color = QColor 0 0 0, document = [(''Hola mundo!'', QColor 0 0 0)], cursor = 3\<rparr>"]
    Logger_write_colors [of "CHR 0x0A # ''Warning: read-only file''"
      "\<lparr>end_of_line = (\<lambda>w. 7), format_at = (\<lambda>w p. QColor 9 9 9)\<rparr>"
      "\<lparr>text_color = QColor 0 0 0, document = [(''Hola mundo!'', QColor 0 0 0)], cursor = 3\<rparr>"]
    Logger_write_colors [of "''Adeu!''"
      "\<lparr>end_of_line = (\<lambda>w. 7), format_at = (\<lambda>w p. QColor 9 9 9)\<rparr>"
      "\<lparr>text_color = QColor 0 0 0, document = [(''Hola mundo!'', QColor 0 0 0)], cursor = 3\<rparr>"]
  by (simp add: error_prefix_def warning_prefix_def)

text \<open>
  Claim C8. \<open>write\<close> called with exactly \<open>\n\<close> or \<open>\r\n\<close> changes nothing: the
  document, the cursor and the current text colour are as they were. Every other string,
  a lone \<open>\r\<close> among them, is appended as a new paragraph at the end of the document.
\<close>

theorem Logger_write_newline_noop:
  "(s = [CHR 0x0A] \<or> s = [CHR 0x0D, CHR 0x0A] \<longrightarrow> Logger_write q w s = w)
   \<and> (s \<noteq> [CHR 0x0A] \<and> s \<noteq> [CHR 0x0D, CHR 0x0A] \<longrightarrow>
        map fst (document (Logger_write q w s)) = map fst (document w) @ [s])"
  by (auto simp: document_Logger_write) (simp_all add: Logger_write_def)

theorem Logger_write_newline_noop_witness:
  "Logger_write \<lparr>end_of_line = (\<lambda>w. 7), format_at = (\<lambda>w p. QColor 9 9 9)\<rparr>
     \<lparr>text_color = QColor 0 0 0, document = [(''Hola mundo!'', QColor 0 0 0)], cursor = 3\<rparr>
     [CHR 0x0D, CHR 0x0A]
    = \<lparr>text_color = QColor 0 0 0, document = [(''Hola mundo!'', QColor 0 0 0)], cursor = 3\<rparr>
   \<and> map fst (document (Logger_write
        \<lparr>end_of_line = (\<lambda>w. 7), format_at = (\<lambda>w p. QColor 9 9 9)\<rparr>
        \<lparr>text_color = QColor 0 0 0, document = [(''Hola mundo!'', QColor 0 0 0)], cursor = 3\<rparr>
        [CHR 0x0D]))
    = [''Hola mundo!'', [CHR 0x0D]]"
  using Logger_write_newline_noop [of "[CHR 0x0D, CHR 0x0A]"
      "\<lparr>end_of_line = (\<lambda>w. 7), format_at = (\<lambda>w p. QColor 9 9 9)\<rparr>"
      "\<lparr>text_color = QColor 0 0 0, document = [(''Hola mundo!'', QColor 0 0 0)], cursor = 3\<rparr>"]
    Logger_write_newline_noop [of "[CHR 0x0D]"
      "\<lparr>end_of_line = (\<lambda>w. 7), format_at = (\<lambda>w p. QColor 9 9 9)\<rparr>"
      "\<lparr>text_color = QColor 0 0 0, document = [(''Hola mundo!'', QColor 0 0 0)], cursor = 3\<rparr>"]
  by simp

text \<open>
  Claim C9. Every call of \<open>write\<close> leaves the current text colour of the widget as it was
  on entry, whatever colour the text was appended in and whatever character format the
  move of the cursor made current.
\<close>

theorem Logger_write_restores_color:
  "text_color (Logger_write q w s) = text_color w"
  by (simp add: Logger_write_def Let_def textColor_def setTextColor_def)

section \<open>The version check\<close>

text \<open>
  Claim C3. \<open>_check_versions\<close> should exit if and only if the installed PyTables is
  older than 3.0. The code compares the version strings as strings: with PyTables 10.0
  installed, which is not below 3.0, it exits with the fatal message, because the
  character \<open>1\<close> sorts before \<open>3\<close>.
\<close>

theorem check_versions_exits_on_10_0:
  "check_versions ''10.0'' =
     Inl (SystemExit
       ''FATAL: PyTables version 3.0 or above is required, installed version is 10.0'')
   \<and> \<not> spec_version_below ''10.0'' ''3.0''"
  by (simp add: check_versions_def spec_version_below_def version_components_def)

section \<open>The command line\<close>

text \<open>
  Claim C1, as the code has it. For every command line that the parser accepts (no
  \<open>--version\<close>, and a \<open>-m/--mode\<close>, if there is one, that is \<open>r\<close> or \<open>a\<close>) and that
  gives \<open>--dblist\<close> a value that is not empty, \<open>_parse_command_line\<close> returns a namespace
  whose \<open>mode\<close> is the empty string and whose \<open>h5file\<close> is the empty list, whatever
  accepted mode and positional paths were given too; \<open>dblist\<close>, \<open>log_file\<close> and
  \<open>verbose\<close> are as given.
\<close>

theorem parse_command_line_dblist_clears:
  assumes "\<not> given_version cl"
    and "\<forall>m. given_mode cl = Some m \<longrightarrow> m \<in> set mode_choices"
    and "given_dblist cl = Some d" and "d \<noteq> []"
  shows "parse_command_line cl =
           Inr \<lparr>mode = [], dblist = d, h5file = [],
                log_file = given_log_file cl, verbose = given_verbose cl\<rparr>"
  using assms
  by (auto simp: parse_command_line_def parse_args_def split: option.splits)

theorem parse_command_line_dblist_clears_witness:
  "parse_command_line
     \<lparr>given_version = False, given_mode = Some ''r'', given_dblist = Some ''files.txt'',
      given_log_file = None, given_verbose = 2, given_h5file = [''a.h5'', ''b.h5'']\<rparr>
   = Inr \<lparr>mode = [], dblist = ''files.txt'', h5file = [], log_file = None, verbose = 2\<rparr>"
  using parse_command_line_dblist_clears [of
     "\<lparr>given_version = False, given_mode = Some ''r'', given_dblist = Some ''files.txt'',
      given_log_file = None, given_verbose = 2, given_h5file = [''a.h5'', ''b.h5'']\<rparr>"
     "''files.txt''"]
  by (simp add: mode_choices_def)

text \<open>
  With \<open>--dblist files.txt -m w\<close> the parser rejects the mode and exits: nothing is
  returned.
\<close>

theorem parse_command_line_dblist_bad_mode:
  "parse_command_line
     \<lparr>given_version = False, given_mode = Some ''w'', given_dblist = Some ''files.txt'',
      given_log_file = None, given_verbose = 0, given_h5file = []\<rparr>
   = Inl ParserExit"
  by (simp add: parse_command_line_def parse_args_def mode_choices_def)

text \<open>
  Claim C10, as the code has it. For every command line without \<open>--version\<close> that gives
  neither \<open>--dblist\<close> nor \<open>-m/--mode\<close>, \<open>_parse_command_line\<close> returns \<open>mode\<close> equal to
  \<open>a\<close>, \<open>dblist\<close> equal to the empty string, and the positional paths as given, the empty
  list when there is none.
\<close>

theorem parse_command_line_defaults:
  assumes "\<not> given_version cl" and "given_dblist cl = None" and "given_mode cl = None"
  shows "parse_command_line cl =
           Inr \<lparr>mode = ''a'', dblist = [], h5file = given_h5file cl,
                log_file = given_log_file cl, verbose = given_verbose cl\<rparr>"
  using assms
  by (simp add: parse_command_line_def parse_args_def)

theorem parse_command_line_defaults_witness:
  "parse_command_line
     \<lparr>given_version = False, given_mode = None, given_dblist = None,
      given_log_file = Some ''vt.log'', given_verbose = 1, given_h5file = [''a.h5'']\<rparr>
   = Inr \<lparr>mode = ''a'', dblist = [], h5file = [''a.h5''],
          log_file = Some ''vt.log'', verbose = 1\<rparr>"
  using parse_command_line_defaults [of
     "\<lparr>given_version = False, given_mode = None, given_dblist = None,
      given_log_file = Some ''vt.log'', given_verbose = 1, given_h5file = [''a.h5'']\<rparr>"]
  by simp

text \<open>
  With \<open>--version\<close> alone, which gives neither option, the parser prints the version and
  exits: nothing is returned.
\<close>

theorem parse_command_line_version_exits:
  "parse_command_line
     \<lparr>given_version = True, given_mode = None, given_dblist = None,
      given_log_file = None, given_verbose = 0, given_h5file = []\<rparr>
   = Inl ParserExit"
  by (simp add: parse_command_line_def parse_args_def)

section \<open>The hook for uncaught exceptions\<close>

text \<open>
  Claim C5. For every exception type, exception and traceback, the hook first calls
  \<open>error\<close> on the logger \<open>uncaught_logger\<close> with the joined lines of the formatted
  traceback followed by \<open>str(value)\<close>, and then calls \<open>sys.__excepthook__\<close> with the same
  three arguments; it makes no other call.
\<close>

theorem uncaught_exception_hook_calls:
  "uncaught_exception_hook format_tb str calls ty value tb =
     calls @ [Logger_error ''uncaught_logger'' (concat (format_tb tb) @ str value),
              Sys_excepthook ty value tb]"
  by (simp add: uncaught_exception_hook_def uncaught_exception_logger_def)

section \<open>Logging\<close>

lemma VERBOSITY_in_table:
  "VERBOSITY_LOGLEVEL_DICT 0 = Some ERROR"
  "VERBOSITY_LOGLEVEL_DICT (Suc 0) = Some WARNING"
  "VERBOSITY_LOGLEVEL_DICT 2 = Some INFO"
  "VERBOSITY_LOGLEVEL_DICT 3 = Some DEBUG"
  by (simp_all add: VERBOSITY_LOGLEVEL_DICT_def)

lemma VERBOSITY_outside_table:
  "3 < v \<Longrightarrow> VERBOSITY_LOGLEVEL_DICT v = None"
  by (simp add: VERBOSITY_LOGLEVEL_DICT_def)

lemma logger_error_simps [simp]:
  "lg_level (logger_error lg msg) = lg_level lg"
  "lg_handlers (logger_error lg msg) = lg_handlers lg"
  "lg_calls (logger_error lg msg) = lg_calls lg @ [(ERROR, msg)]"
  by (simp_all add: logger_error_def Let_def)

lemma lg_emitted_logger_error:
  "lg_emitted (logger_error lg msg) =
     (if lg_level lg \<le> ERROR
      then lg_emitted lg @ map (\<lambda>h. (h_stream h, ERROR, msg))
                             (filter (\<lambda>h. h_level h \<le> ERROR) (lg_handlers lg))
      else lg_emitted lg)"
  by (simp add: logger_error_def Let_def)

lemma setLevel_simps [simp]:
  "lg_level (setLevel lg l) = l"
  "lg_handlers (setLevel lg l) = lg_handlers lg"
  "lg_calls (setLevel lg l) = lg_calls lg"
  "lg_emitted (setLevel lg l) = lg_emitted lg"
  by (simp_all add: setLevel_def)

lemma addHandler_simps [simp]:
  "lg_level (addHandler lg h) = lg_level lg"
  "lg_handlers (addHandler lg h) = lg_handlers lg @ [h]"
  "lg_calls (addHandler lg h) = lg_calls lg"
  "lg_emitted (addHandler lg h) = lg_emitted lg"
  by (simp_all add: addHandler_def)

lemma setup_logger_fst:
  "fst (setup_logger env a root) =
     set_verbosity a (open_log_file env FILE_LOG_FORMAT a
       (addHandler root (setFormatter StreamHandler FILE_LOG_FORMAT)))"
  by (simp add: setup_logger_def Let_def)

lemma setup_logger_snd:
  "snd (setup_logger env a root) = setFormatter StreamHandler FILE_LOG_FORMAT"
  by (simp add: setup_logger_def Let_def)

lemma handlers_open_log_file:
  "h \<in> set (lg_handlers lg) \<Longrightarrow> h \<in> set (lg_handlers (open_log_file env fmt a lg))"
  by (auto simp: open_log_file_def add_file_handler_def Let_def split: option.splits sum.splits)

lemma lg_level_set_verbosity_in_table:
  "VERBOSITY_LOGLEVEL_DICT (verbose a) = Some l \<Longrightarrow> lg_level (set_verbosity a lg) = l"
  by (simp add: set_verbosity_def)

lemma set_verbosity_outside_table:
  assumes "VERBOSITY_LOGLEVEL_DICT (verbose a) = None"
  shows "lg_level (set_verbosity a lg) = ERROR"
    and "lg_handlers (set_verbosity a lg) = lg_handlers lg"
    and "lg_calls (set_verbosity a lg) = lg_calls lg @
           [(ERROR, ''Invalid verbosity level: '' @ str_of_nat (verbose a)
                    @ '', error level set to ERROR'')]"
    and "lg_emitted (set_verbosity a lg) = lg_emitted lg @
           map (\<lambda>h. (h_stream h, ERROR, ''Invalid verbosity level: '' @ str_of_nat (verbose a)
                    @ '', error level set to ERROR''))
               (filter (\<lambda>h. h_level h \<le> ERROR) (lg_handlers lg))"
  using assms by (simp_all add: set_verbosity_def lg_emitted_logger_error)

lemma stderr_record_emitted:
  assumes "setFormatter StreamHandler fmt \<in> set hs"
  shows "(Stderr, ERROR, msg) \<in>
           set (map (\<lambda>h. (h_stream h, ERROR, msg)) (filter (\<lambda>h. h_level h \<le> ERROR) hs))"
proof -
  have "setFormatter StreamHandler fmt \<in> set (filter (\<lambda>h. h_level h \<le> ERROR) hs)"
    using assms by (simp add: setFormatter_def StreamHandler_def NOTSET_def)
  moreover have "h_stream (setFormatter StreamHandler fmt) = Stderr"
    by (simp add: setFormatter_def StreamHandler_def)
  ultimately show ?thesis
    by (force simp: image_iff)
qed

lemma lg_level_set_verbosity:
  "lg_level (set_verbosity a lg) =
     (case VERBOSITY_LOGLEVEL_DICT (verbose a) of Some l \<Rightarrow> l | None \<Rightarrow> ERROR)"
  by (simp add: set_verbosity_def split: option.splits)

lemma lg_handlers_set_verbosity: "lg_handlers (set_verbosity a lg) = lg_handlers lg"
  by (simp add: set_verbosity_def split: option.splits)

lemma lg_calls_set_verbosity:
  "lg_calls (set_verbosity a lg) = lg_calls lg @
     (case VERBOSITY_LOGLEVEL_DICT (verbose a) of
        Some l \<Rightarrow> []
      | None \<Rightarrow> [(ERROR, ''Invalid verbosity level: '' @ str_of_nat (verbose a)
                          @ '', error level set to ERROR'')])"
  by (simp add: set_verbosity_def split: option.splits)

lemma lg_emitted_set_verbosity:
  "x \<in> set (lg_emitted lg) \<Longrightarrow> x \<in> set (lg_emitted (set_verbosity a lg))"
  by (simp add: set_verbosity_def lg_emitted_logger_error split: option.splits)

lemma logger_error_emits_stderr:
  assumes "lg_level lg \<le> ERROR" and "setFormatter StreamHandler fmt \<in> set (lg_handlers lg)"
  shows "(Stderr, ERROR, msg) \<in> set (lg_emitted (logger_error lg msg))"
  using stderr_record_emitted [OF assms(2), of msg] assms(1)
  by (simp only: lg_emitted_logger_error if_True set_append Un_iff simp_thms)

lemma logger_error_keeps_emitted:
  "x \<in> set (lg_emitted lg) \<Longrightarrow> x \<in> set (lg_emitted (logger_error lg msg))"
  by (simp add: lg_emitted_logger_error)

lemma open_log_file_failure:
  assumes "log_file a = Some path"
    and "FileHandler env (expandvars env (expanduser env path)) = Inl e"
  shows "open_log_file env fmt a lg =
           logger_error (logger_error lg ''Failed to open log file'') (exc_str e)"
  using assms by (simp add: open_log_file_def add_file_handler_def Let_def)

text \<open>
  Claim C2. For every verbosity count, \<open>_setup_logger\<close> sets the level of the root logger
  by the table: 0 gives \<open>ERROR\<close>, 1 gives \<open>WARNING\<close>, 2 gives \<open>INFO\<close>, 3 gives
  \<open>DEBUG\<close>. For every count outside the table the level is \<open>ERROR\<close>, and the last
  logging call is an error message about the invalid verbosity level, which reaches the
  temporary handler on \<open>sys.stderr\<close>.
\<close>

theorem setup_logger_verbosity:
  "(verbose a = 0 \<longrightarrow> lg_level (fst (setup_logger env a root)) = ERROR)
   \<and> (verbose a = 1 \<longrightarrow> lg_level (fst (setup_logger env a root)) = WARNING)
   \<and> (verbose a = 2 \<longrightarrow> lg_level (fst (setup_logger env a root)) = INFO)
   \<and> (verbose a = 3 \<longrightarrow> lg_level (fst (setup_logger env a root)) = DEBUG)
   \<and> (3 < verbose a \<longrightarrow>
        lg_level (fst (setup_logger env a root)) = ERROR
        \<and> last (lg_calls (fst (setup_logger env a root))) =
            (ERROR, ''Invalid verbosity level: '' @ str_of_nat (verbose a)
                    @ '', error level set to ERROR'')
        \<and> (Stderr, ERROR, ''Invalid verbosity level: '' @ str_of_nat (verbose a)
                    @ '', error level set to ERROR'')
            \<in> set (lg_emitted (fst (setup_logger env a root))))"
proof -
  let ?lg2 = "open_log_file env FILE_LOG_FORMAT a
       (addHandler root (setFormatter StreamHandler FILE_LOG_FORMAT))"
  have in_table: "VERBOSITY_LOGLEVEL_DICT (verbose a) = Some l \<Longrightarrow>
      lg_level (fst (setup_logger env a root)) = l" for l
    by (simp add: setup_logger_fst lg_level_set_verbosity_in_table)
  let ?msg = "''Invalid verbosity level: '' @ str_of_nat (verbose a)
                    @ '', error level set to ERROR''"
  have outside: "lg_level (fst (setup_logger env a root)) = ERROR
        \<and> last (lg_calls (fst (setup_logger env a root))) = (ERROR, ?msg)
        \<and> (Stderr, ERROR, ?msg) \<in> set (lg_emitted (fst (setup_logger env a root)))"
    if "3 < verbose a"
  proof -
    have none: "VERBOSITY_LOGLEVEL_DICT (verbose a) = None"
      using that by (rule VERBOSITY_outside_table)
    have "setFormatter StreamHandler FILE_LOG_FORMAT \<in> set (lg_handlers ?lg2)"
      by (rule handlers_open_log_file) simp
    then have "(Stderr, ERROR, ?msg) \<in>
        set (map (\<lambda>h. (h_stream h, ERROR, ?msg))
                 (filter (\<lambda>h. h_level h \<le> ERROR) (lg_handlers ?lg2)))"
      by (rule stderr_record_emitted)
    then show ?thesis
      using set_verbosity_outside_table [OF none, of ?lg2]
      by (simp add: setup_logger_fst)
  qed
  show ?thesis
    using in_table VERBOSITY_in_table outside by simp
qed

theorem setup_logger_verbosity_witness:
  "lg_level (fst (setup_logger
       \<lparr>expanduser = (\<lambda>p. p), expandvars = (\<lambda>p. p), open_raises = (\<lambda>p. None)\<rparr>
       \<lparr>mode = ''a'', dblist = [], h5file = [], log_file = None, verbose = 0\<rparr>
       \<lparr>lg_level = WARNING, lg_handlers = [], lg_calls = [], lg_emitted = []\<rparr>)) = ERROR
   \<and> lg_level (fst (setup_logger
       \<lparr>expanduser = (\<lambda>p. p), expandvars = (\<lambda>p. p), open_raises = (\<lambda>p. None)\<rparr>
       \<lparr>mode = ''a'', dblist = [], h5file = [], log_file = None, verbose = 1\<rparr>
       \<lparr>lg_level = WARNING, lg_handlers = [], lg_calls = [], lg_emitted = []\<rparr>)) = WARNING
   \<and> lg_level (fst (setup_logger
       \<lparr>expanduser = (\<lambda>p. p), expandvars = (\<lambda>p. p), open_raises = (\<lambda>p. None)\<rparr>
       \<lparr>mode = ''a'', dblist = [], h5file = [], log_file = None, verbose = 2\<rparr>
       \<lparr>lg_level = WARNING, lg_handlers = [], lg_calls = [], lg_emitted = []\<rparr>)) = INFO
   \<and> lg_level (fst (setup_logger
       \<lparr>expanduser = (\<lambda>p. p), expandvars = (\<lambda>p. p), open_raises = (\<lambda>p. None)\<rparr>
       \<lparr>mode = ''a'', dblist = [], h5file = [], log_file = None, verbose = 3\<rparr>
       \<lparr>lg_level = WARNING, lg_handlers = [], lg_calls = [], lg_emitted = []\<rparr>)) = DEBUG
   \<and> lg_level (fst (setup_logger
       \<lparr>expanduser = (\<lambda>p. p), expandvars = (\<lambda>p. p), open_raises = (\<lambda>p. None)\<rparr>
       \<lparr>mode = ''a'', dblist = [], h5file = [], log_file = None, verbose = 5\<rparr>
       \<lparr>lg_level = WARNING, lg_handlers = [], lg_calls = [], lg_emitted = []\<rparr>)) = ERROR
   \<and> (Stderr, ERROR, ''Invalid verbosity level: 5, error level set to ERROR'')
       \<in> set (lg_emitted (fst (setup_logger
       \<lparr>expanduser = (\<lambda>p. p), expandvars = (\<lambda>p. p), open_raises = (\<lambda>p. None)\<rparr>
       \<lparr>mode = ''a'', dblist = [], h5file = [], log_file = None, verbose = 5\<rparr>
       \<lparr>lg_level = WARNING, lg_handlers = [], lg_calls = [], lg_emitted = []\<rparr>)))"
proof -
  have s5: "str_of_nat 5 = ''5''"
    by code_simp
  show ?thesis
    using setup_logger_verbosity [of
       "\<lparr>mode = ''a'', dblist = [], h5file = [], log_file = None, verbose = 0\<rparr>"
       "\<lparr>expanduser = (\<lambda>p. p), expandvars = (\<lambda>p. p), open_raises = (\<lambda>p. None)\<rparr>"
       "\<lparr>lg_level = WARNING, lg_handlers = [], lg_calls = [], lg_emitted = []\<rparr>"]
      setup_logger_verbosity [of
       "\<lparr>mode = ''a'', dblist = [], h5file = [], log_file = None, verbose = 1\<rparr>"
       "\<lparr>expanduser = (\<lambda>p. p), expandvars = (\<lambda>p. p), open_raises = (\<lambda>p. None)\<rparr>"
       "\<lparr>lg_level = WARNING, lg_handlers = [], lg_calls = [], lg_emitted = []\<rparr>"]
      setup_logger_verbosity [of
       "\<lparr>mode = ''a'', dblist = [], h5file = [], log_file = None, verbose = 2\<rparr>"
       "\<lparr>expanduser = (\<lambda>p. p), expandvars = (\<lambda>p. p), open_raises = (\<lambda>p. None)\<rparr>"
       "\<lparr>lg_level = WARNING, lg_handlers = [], lg_calls = [], lg_emitted = []\<rparr>"]
      setup_logger_verbosity [of
       "\<lparr>mode = ''a'', dblist = [], h5file = [], log_file = None, verbose = 3\<rparr>"
       "\<lparr>expanduser = (\<lambda>p. p), expandvars = (\<lambda>p. p), open_raises = (\<lambda>p. None)\<rparr>"
       "\<lparr>lg_level = WARNING, lg_handlers = [], lg_calls = [], lg_emitted = []\<rparr>"]
      setup_logger_verbosity [of
       "\<lparr>mode = ''a'', dblist = [], h5file = [], log_file = None, verbose = 5\<rparr>"
       "\<lparr>expanduser = (\<lambda>p. p), expandvars = (\<lambda>p. p), open_raises = (\<lambda>p. None)\<rparr>"
       "\<lparr>lg_level = WARNING, lg_handlers = [], lg_calls = [], lg_emitted = []\<rparr>"]
    by (simp add: s5)
qed

text \<open>
  Claim C4. For every arguments record with a log file, if constructing the file handler
  for its path raises an exception, \<open>_setup_logger\<close> catches it and returns the logger and
  the temporary handler on \<open>sys.stderr\<close>: that handler is the only one added, the level
  is set by the verbosity table, and the failure has been logged with two calls of
  \<open>logger.error\<close>, the first with \<open>Failed to open log file\<close> and the second with the
  exception. Where the level of the root logger on entry admits errors (it is
  \<open>WARNING\<close> when the interpreter starts), both records reach \<open>sys.stderr\<close>.
\<close>

theorem setup_logger_log_file_failure:
  assumes "log_file a = Some path"
    and "FileHandler env (expandvars env (expanduser env path)) = Inl e"
  shows "snd (setup_logger env a root) = setFormatter StreamHandler FILE_LOG_FORMAT
   \<and> lg_handlers (fst (setup_logger env a root)) =
        lg_handlers root @ [setFormatter StreamHandler FILE_LOG_FORMAT]
   \<and> lg_level (fst (setup_logger env a root)) =
        (case VERBOSITY_LOGLEVEL_DICT (verbose a) of Some l \<Rightarrow> l | None \<Rightarrow> ERROR)
   \<and> lg_calls (fst (setup_logger env a root)) =
        lg_calls root @ [(ERROR, ''Failed to open log file''), (ERROR, exc_str e)] @
        (case VERBOSITY_LOGLEVEL_DICT (verbose a) of
           Some l \<Rightarrow> []
         | None \<Rightarrow> [(ERROR, ''Invalid verbosity level: '' @ str_of_nat (verbose a)
                             @ '', error level set to ERROR'')])
   \<and> (lg_level root \<le> ERROR \<longrightarrow>
        (Stderr, ERROR, ''Failed to open log file'')
          \<in> set (lg_emitted (fst (setup_logger env a root)))
        \<and> (Stderr, ERROR, exc_str e) \<in> set (lg_emitted (fst (setup_logger env a root))))"
proof -
  let ?h = "setFormatter StreamHandler FILE_LOG_FORMAT"
  let ?lg1 = "addHandler root ?h"
  let ?lg2 = "logger_error (logger_error ?lg1 ''Failed to open log file'') (exc_str e)"
  have fst_eq: "fst (setup_logger env a root) = set_verbosity a ?lg2"
    by (simp add: setup_logger_fst open_log_file_failure [OF assms])
  have emitted: "(Stderr, ERROR, ''Failed to open log file'') \<in> set (lg_emitted ?lg2)
      \<and> (Stderr, ERROR, exc_str e) \<in> set (lg_emitted ?lg2)"
    if le: "lg_level root \<le> ERROR"
  proof -
    have h1: "?h \<in> set (lg_handlers ?lg1)" by simp
    have l1: "lg_level ?lg1 \<le> ERROR" using le by simp
    have first: "(Stderr, ERROR, ''Failed to open log file'')
          \<in> set (lg_emitted (logger_error ?lg1 ''Failed to open log file''))"
      using l1 h1 by (rule logger_error_emits_stderr)
    have "(Stderr, ERROR, exc_str e) \<in> set (lg_emitted ?lg2)"
      by (rule logger_error_emits_stderr [where fmt = FILE_LOG_FORMAT]) (simp_all add: le)
    with first show ?thesis
      by (simp only: logger_error_keeps_emitted simp_thms)
  qed
  show ?thesis
    using emitted
    by (simp add: fst_eq setup_logger_snd lg_level_set_verbosity lg_handlers_set_verbosity
        lg_calls_set_verbosity lg_emitted_set_verbosity)
qed

theorem setup_logger_log_file_failure_witness:
  "log_file \<lparr>mode = ''a'', dblist = [], h5file = [], log_file = Some ''/nodir/vt.log'',
             verbose = 2\<rparr> = Some ''/nodir/vt.log''
   \<and> FileHandler \<lparr>expanduser = (\<lambda>p. p), expandvars = (\<lambda>p. p),
         open_raises = (\<lambda>p. Some (Exc ''FileNotFoundError'' ''No such file or directory''))\<rparr>
        ''/nodir/vt.log'' = Inl (Exc ''FileNotFoundError'' ''No such file or directory'')
   \<and> setup_logger \<lparr>expanduser = (\<lambda>p. p), expandvars = (\<lambda>p. p),
         open_raises = (\<lambda>p. Some (Exc ''FileNotFoundError'' ''No such file or directory''))\<rparr>
        \<lparr>mode = ''a'', dblist = [], h5file = [], log_file = Some ''/nodir/vt.log'',
         verbose = 2\<rparr>
        \<lparr>lg_level = WARNING, lg_handlers = [], lg_calls = [], lg_emitted = []\<rparr>
     = (\<lparr>lg_level = INFO,
         lg_handlers = [setFormatter StreamHandler FILE_LOG_FORMAT],
         lg_calls = [(ERROR, ''Failed to open log file''),
                     (ERROR, ''No such file or directory'')],
         lg_emitted = [(Stderr, ERROR, ''Failed to open log file''),
                       (Stderr, ERROR, ''No such file or directory'')]\<rparr>,
        setFormatter StreamHandler FILE_LOG_FORMAT)"
proof -
  let ?a = "\<lparr>mode = ''a'', dblist = [], h5file = [], log_file = Some ''/nodir/vt.log'',
             verbose = 2\<rparr>"
  let ?env = "\<lparr>expanduser = (\<lambda>p. p), expandvars = (\<lambda>p. p),
         open_raises = (\<lambda>p. Some (Exc ''FileNotFoundError'' ''No such file or directory''))\<rparr>"
  let ?root = "\<lparr>lg_level = WARNING, lg_handlers = [], lg_calls = [], lg_emitted = []\<rparr>"
  have 1: "log_file ?a = Some ''/nodir/vt.log''" by simp
  have 2: "FileHandler ?env (expandvars ?env (expanduser ?env ''/nodir/vt.log''))
             = Inl (Exc ''FileNotFoundError'' ''No such file or directory'')"
    by (simp add: FileHandler_def)
  have 3: "lg_level ?root \<le> ERROR" by (simp add: WARNING_def ERROR_def)
  note main = setup_logger_log_file_failure [OF 1 2, of ?root]
  have "lg_emitted (fst (setup_logger ?env ?a ?root)) =
          [(Stderr, ERROR, ''Failed to open log file''),
           (Stderr, ERROR, ''No such file or directory'')]"
    by (simp add: setup_logger_def Let_def open_log_file_def add_file_handler_def
        FileHandler_def set_verbosity_def VERBOSITY_LOGLEVEL_DICT_def lg_emitted_logger_error
        setFormatter_def StreamHandler_def NOTSET_def WARNING_def ERROR_def)
  with main 2 show ?thesis
    by (cases "setup_logger ?env ?a ?root")
       (simp add: VERBOSITY_LOGLEVEL_DICT_def)
qed

section \<open>Closing the files left open\<close>

lemma close_all_effects:
  "close_all cr vb hs w = Inr w' \<Longrightarrow>
     closed w' = closed w @ hs \<and> (\<not> truthy vb \<longrightarrow> stderr w' = stderr w)"
proof (induction hs arbitrary: w)
  case Nil
  then show ?case by simp
next
  case (Cons h hs)
  from Cons.prems obtain w1 where
    step: "close_all cr vb hs w1 = Inr w'"
    and w1: "closed w1 = closed w @ [h]" "\<not> truthy vb \<longrightarrow> stderr w1 = stderr w"
    by (auto simp: Let_def stderr_write_def split: option.splits if_splits)
  from Cons.IH [OF step] w1 show ?case by simp
qed

lemma close_all_returns:
  "(\<forall>h \<in> set hs. cr h = None) \<Longrightarrow> \<exists>w'. close_all cr vb hs w = Inr w'"
  by (induction hs arbitrary: w) (simp_all add: Let_def)

lemma handlers_of_keys_items:
  "(\<forall>(k, h) \<in> set items. map_of d k = Some h) \<Longrightarrow>
     handlers_of_keys d (map fst items) acc = Inr (acc @ map snd items)"
  by (induction items arbitrary: acc) auto

lemma handlers_from_keys_dict:
  "distinct (map fst d) \<Longrightarrow> handlers_from_keys (Dict_registry d) = Inr (map snd d)"
  using handlers_of_keys_items [of d d "[]"]
  by (simp add: handlers_from_keys_def)

lemma chosen_handlers:
  assumes "registry_wf r"
    and "(if str_ge v ''3.1.0'' then list_handlers r else handlers_from_keys r) = Inr hs"
  shows "hs = registry_handles r"
proof (cases r)
  case (Handlers_registry xs)
  with assms(2) show ?thesis
    by (simp add: list_handlers_def handlers_from_keys_def registry_handles_def
        split: if_splits)
next
  case (Dict_registry d)
  with assms show ?thesis
    by (simp add: list_handlers_def handlers_from_keys_dict registry_handles_def
        registry_wf_def split: if_splits)
qed

lemma close_open_files_returns:
  assumes "\<forall>h \<in> set hs. cr h = None" and "str_ge v ''3.1.0''"
  shows "\<exists>w'. close_open_files cr v (Handlers_registry hs) vb w = Inr w'"
proof -
  let ?w1 = "if truthy vb \<and> 0 < len_registry (Handlers_registry hs)
             then stderr_write w ''Closing remaining open files:'' else w"
  from close_all_returns [OF assms(1)] obtain w2 where "close_all cr vb hs ?w1 = Inr w2"
    by blast
  then show ?thesis
    using assms(2) by (simp add: close_open_files_def Let_def list_handlers_def)
qed

lemma close_open_files_returns_dict:
  assumes "\<forall>h \<in> set (map snd d). cr h = None" and "\<not> str_ge v ''3.1.0''"
    and "distinct (map fst d)"
  shows "\<exists>w'. close_open_files cr v (Dict_registry d) vb w = Inr w'"
proof -
  let ?w1 = "if truthy vb \<and> 0 < len_registry (Dict_registry d)
             then stderr_write w ''Closing remaining open files:'' else w"
  from close_all_returns [OF assms(1)] obtain w2 where
    "close_all cr vb (map snd d) ?w1 = Inr w2"
    by blast
  then show ?thesis
    using assms(2,3) by (simp add: close_open_files_def Let_def handlers_from_keys_dict)
qed

text \<open>
  Claim C7. When \<open>_close_open_files\<close> returns, \<open>close()\<close> has been called on every
  handle that was in the registry of open files, once each and in the order of the
  registry, for the layout with a \<open>handlers\<close> container and for the layout with keys
  alike; and when \<open>verbose\<close> is false, \<open>None\<close>, zero or empty, nothing has been written
  to \<open>sys.stderr\<close>.
\<close>

theorem close_open_files_closes_all:
  assumes "close_open_files cr v r vb w = Inr w'" and "registry_wf r"
  shows "closed w' = closed w @ registry_handles r
     \<and> (\<forall>h \<in> set (registry_handles r). h \<in> set (closed w'))
     \<and> (\<not> truthy vb \<longrightarrow> stderr w' = stderr w)"
proof -
  let ?w1 = "if truthy vb \<and> 0 < len_registry r
             then stderr_write w ''Closing remaining open files:'' else w"
  from assms(1) obtain hs w2 where
    hs: "(if str_ge v ''3.1.0'' then list_handlers r else handlers_from_keys r) = Inr hs"
    and loop: "close_all cr vb hs ?w1 = Inr w2"
    and w': "w' = (if truthy vb \<and> 0 < len_registry r
                   then stderr_write w2 [CHR 0x0A] else w2)"
    by (auto simp: close_open_files_def Let_def split: sum.splits)
  have hs_eq: "hs = registry_handles r"
    using assms(2) hs by (rule chosen_handlers)
  from close_all_effects [OF loop]
  have "closed w2 = closed ?w1 @ hs" and "\<not> truthy vb \<longrightarrow> stderr w2 = stderr ?w1"
    by simp_all
  then have "closed w' = closed w @ hs" and "\<not> truthy vb \<longrightarrow> stderr w' = stderr w"
    by (simp_all add: w' stderr_write_def)
  then show ?thesis
    by (simp add: hs_eq)
qed

theorem close_open_files_closes_all_witness:
  "close_open_files (\<lambda>h. None) ''3.10.1''
     (Handlers_registry [\<lparr>filename = ''a.h5'', handle_id = 1\<rparr>,
                         \<lparr>filename = ''b.h5'', handle_id = 2\<rparr>])
     (PyBool False) \<lparr>stderr = [], closed = []\<rparr>
    = Inr \<lparr>stderr = [], closed = [\<lparr>filename = ''a.h5'', handle_id = 1\<rparr>,
                                   \<lparr>filename = ''b.h5'', handle_id = 2\<rparr>]\<rparr>
   \<and> registry_wf (Handlers_registry [\<lparr>filename = ''a.h5'', handle_id = 1\<rparr>,
                         \<lparr>filename = ''b.h5'', handle_id = 2\<rparr>])
   \<and> close_open_files (\<lambda>h. None) ''3.0.0''
     (Dict_registry [(''a.h5'', \<lparr>filename = ''a.h5'', handle_id = 1\<rparr>),
                     (''b.h5'', \<lparr>filename = ''b.h5'', handle_id = 2\<rparr>)])
     (PyInt 0) \<lparr>stderr = [], closed = []\<rparr>
    = Inr \<lparr>stderr = [], closed = [\<lparr>filename = ''a.h5'', handle_id = 1\<rparr>,
                                   \<lparr>filename = ''b.h5'', handle_id = 2\<rparr>]\<rparr>
   \<and> registry_wf (Dict_registry [(''a.h5'', \<lparr>filename = ''a.h5'', handle_id = 1\<rparr>),
                     (''b.h5'', \<lparr>filename = ''b.h5'', handle_id = 2\<rparr>)])"
proof -
  let ?a = "\<lparr>filename = ''a.h5'', handle_id = 1\<rparr>"
  let ?b = "\<lparr>filename = ''b.h5'', handle_id = 2\<rparr>"
  let ?w = "\<lparr>stderr = [], closed = []\<rparr>"
  obtain w1 where new: "close_open_files (\<lambda>h. None) ''3.10.1''
       (Handlers_registry [?a, ?b]) (PyBool False) ?w = Inr w1"
    by (simp add: close_open_files_def Let_def str_ge_def list_handlers_def len_registry_def)
  obtain w2 where old: "close_open_files (\<lambda>h. None) ''3.0.0''
       (Dict_registry [(''a.h5'', ?a), (''b.h5'', ?b)]) (PyInt 0) ?w = Inr w2"
    by (simp add: close_open_files_def Let_def str_ge_def handlers_from_keys_def
        len_registry_def)
  have wf1: "registry_wf (Handlers_registry [?a, ?b])"
    by (simp add: registry_wf_def)
  have wf2: "registry_wf (Dict_registry [(''a.h5'', ?a), (''b.h5'', ?b)])"
    by (simp add: registry_wf_def)
  from close_open_files_closes_all [OF new wf1] close_open_files_closes_all [OF old wf2]
  have "w1 = \<lparr>stderr = [], closed = [?a, ?b]\<rparr>" "w2 = \<lparr>stderr = [], closed = [?a, ?b]\<rparr>"
    by (simp_all add: registry_handles_def)
  with new old wf1 wf2 show ?thesis by simp
qed

end
